theory Spec2Isabelle
  imports Main "HOL-Library.AList"
begin

section \<open>Python values and built-ins used by utils.py\<close>

text \<open>
  Exceptions are values. Only the exception classes that the modelled code can raise
  or catches by name appear. Calls of \<^verbatim>\<open>print\<close> write to the console only and are left
  out of the model; every other effect (files, HTTP calls) is explicit.
\<close>

datatype error =
    NameError string
  | IndexError
  | KeyError
  | TypeError
  | AttributeError
  | ValueError
  | ParseError
  | RequestException
  | JSONDecodeError

text \<open>\<^verbatim>\<open>s.split(c)\<close> for a one-character separator: never the empty list.\<close>

fun py_split :: "char \<Rightarrow> string \<Rightarrow> string list" where
  "py_split c [] = [[]]"
| "py_split c (x # xs) =
     (if x = c then [] # py_split c xs
      else (case py_split c xs of [] \<Rightarrow> [[x]] | w # ws \<Rightarrow> (x # w) # ws))"

text \<open>\<^verbatim>\<open>sep.join(parts)\<close>.\<close>

fun py_join :: "string \<Rightarrow> string list \<Rightarrow> string" where
  "py_join sep [] = []"
| "py_join sep [p] = p"
| "py_join sep (p # q # ps) = p @ sep @ py_join sep (q # ps)"

text \<open>\<^verbatim>\<open>s.strip(c)\<close> for a one-character set: leading and trailing \<open>c\<close> removed.\<close>

definition py_strip :: "char \<Rightarrow> string \<Rightarrow> string" where
  "py_strip c s = rev (dropWhile (\<lambda>x. x = c) (rev (dropWhile (\<lambda>x. x = c) s)))"

text \<open>\<^verbatim>\<open>s.replace(a, b)\<close> for one-character \<open>a\<close> and \<open>b\<close>.\<close>

definition py_replace :: "char \<Rightarrow> char \<Rightarrow> string \<Rightarrow> string" where
  "py_replace a b s = map (\<lambda>x. if x = a then b else x) s"

text \<open>
  The slice \<^verbatim>\<open>xs[:k]\<close>: a negative bound counts from the end, and every bound is
  clamped to the list. So \<^verbatim>\<open>xs[:-3]\<close> drops the last three elements, while
  \<^verbatim>\<open>xs[:-0]\<close> is \<^verbatim>\<open>xs[:0]\<close>, the empty list.
\<close>

definition py_slice_to :: "int \<Rightarrow> 'a list \<Rightarrow> 'a list" where
  "py_slice_to k xs =
     (if k < 0 then take (nat (int (length xs) + k)) xs else take (nat k) xs)"

text \<open>\<^verbatim>\<open>xs[i]\<close> for a constant index \<open>i \<ge> 0\<close>: out of range raises IndexError.\<close>

definition py_index :: "'a list \<Rightarrow> nat \<Rightarrow> error + 'a" where
  "py_index xs i = (if i < length xs then Inr (xs ! i) else Inl IndexError)"

section \<open>UrlResolver: create_target_url and extract_params_from_url\<close>

text \<open>
  The body of the \<^verbatim>\<open>try\<close> block of \<^verbatim>\<open>create_target_url\<close>: the only expression that
  can raise, for a string and an integer, is \<^verbatim>\<open>parts[1]\<close>.
\<close>

definition create_target_url_try :: "string \<Rightarrow> int \<Rightarrow> error + string" where
  "create_target_url_try url cutoff =
     (let parts = py_split CHR ''-'' url;
          parts = py_slice_to (- cutoff) parts
      in case py_index parts 1 of
           Inl err \<Rightarrow> Inl err
         | Inr p1 \<Rightarrow>
             Inr (''https://www.sellwithduran.com/property/'' @ p1 @ ''/''
                  @ py_join ''-'' (drop 2 parts) @ ''/''))"

text \<open>
  \<^verbatim>\<open>create_target_url\<close> returns the target URL, or \<^verbatim>\<open>False\<close> when the body raised:
  \<open>None\<close> stands for that \<^verbatim>\<open>False\<close>.
\<close>

definition create_target_url :: "string \<Rightarrow> int \<Rightarrow> string option" where
  "create_target_url url cutoff =
     (case create_target_url_try url cutoff of
        Inl err \<Rightarrow> None
      | Inr target_url \<Rightarrow> Some target_url)"

text \<open>
  \<^verbatim>\<open>urllib.parse.urlparse\<close> is a library function; of its result the code reads
  \<^verbatim>\<open>netloc\<close> and \<^verbatim>\<open>path\<close>. It is a parameter of the model: a function from the URL to
  the parsed parts, or to the exception it raises.
\<close>

record parsed_url =
  netloc :: string
  path :: string

type_synonym urlparser = "string \<Rightarrow> error + parsed_url"

text \<open>The body of the \<^verbatim>\<open>try\<close> block of \<^verbatim>\<open>extract_params_from_url\<close>.\<close>

definition extract_params_try :: "urlparser \<Rightarrow> string \<Rightarrow> error + (string \<times> string \<times> string)" where
  "extract_params_try urlparse url =
     (case urlparse url of
        Inl err \<Rightarrow> Inl err
      | Inr parsed \<Rightarrow>
          (let domain = netloc parsed;
               path_parts = py_split CHR ''/'' (py_strip CHR ''/'' (path parsed))
           in case py_index path_parts 1 of
                Inl err \<Rightarrow> Inl err
              | Inr mlsid \<Rightarrow>
                  (case py_index path_parts 2 of
                     Inl err \<Rightarrow> Inl err
                   | Inr seg \<Rightarrow> Inr (domain, mlsid, py_replace CHR ''-'' CHR '' '' seg))))"

text \<open>
  \<^verbatim>\<open>extract_params_from_url\<close> returns the triple, or \<^verbatim>\<open>(None, None, None)\<close> when the
  body raised.
\<close>

definition extract_params_from_url ::
  "urlparser \<Rightarrow> string \<Rightarrow> string option \<times> string option \<times> string option" where
  "extract_params_from_url urlparse url =
     (case extract_params_try urlparse url of
        Inl err \<Rightarrow> (None, None, None)
      | Inr (domain, mlsid, address) \<Rightarrow> (Some domain, Some mlsid, Some address))"

text \<open>
  What \<^verbatim>\<open>urlparse\<close> yields on a plain URL \<^verbatim>\<open>scheme://netloc/path\<close> (no query, fragment,
  parameters, brackets or control characters): the scheme ends at the first colon, the
  network location runs from after \<^verbatim>\<open>//\<close> to the next slash, the path is the rest. It is
  used at concrete URLs of that shape only.
\<close>

definition urlparse_plain :: urlparser where
  "urlparse_plain url =
     (let rest = (if CHR '':'' \<in> set url \<and> takeWhile (\<lambda>x. x \<noteq> CHR '':'') url \<noteq> []
                  then tl (dropWhile (\<lambda>x. x \<noteq> CHR '':'') url) else url)
      in if take 2 rest = ''//''
         then Inr \<lparr>netloc = takeWhile (\<lambda>x. x \<noteq> CHR ''/'') (drop 2 rest),
                   path = dropWhile (\<lambda>x. x \<noteq> CHR ''/'') (drop 2 rest)\<rparr>
         else Inr \<lparr>netloc = [], path = rest\<rparr>)"

section \<open>SitemapSource: parse_sitemap and the date filter\<close>

text \<open>
  An ElementTree element: its tag (namespace-qualified), its text (\<^verbatim>\<open>None\<close> when the
  element has none) and its children in document order.
\<close>

datatype element = Element (elem_tag: string) (elem_text: "string option") (elem_children: "element list")

text \<open>\<^verbatim>\<open>root.findall('.//tag')\<close>: every element below the root, in document order, with that tag.\<close>

fun subelements :: "element \<Rightarrow> element list" where
  "subelements (Element t x cs) = concat (map (\<lambda>c. c # subelements c) cs)"

definition findall :: "string \<Rightarrow> element \<Rightarrow> element list" where
  "findall t root = filter (\<lambda>e. elem_tag e = t) (subelements root)"

text \<open>\<^verbatim>\<open>url.find('tag')\<close>: the first child with that tag, or \<^verbatim>\<open>None\<close>.\<close>

definition find_child :: "string \<Rightarrow> element \<Rightarrow> element option" where
  "find_child t e = find (\<lambda>c. elem_tag c = t) (elem_children e)"

definition ns_url :: string where
  "ns_url = ''{http://www.sitemaps.org/schemas/sitemap/0.9}url''"

definition ns_loc :: string where
  "ns_loc = ''{http://www.sitemaps.org/schemas/sitemap/0.9}loc''"

definition ns_lastmod :: string where
  "ns_lastmod = ''{http://www.sitemaps.org/schemas/sitemap/0.9}lastmod''"

type_synonym sitemap_entry = "string option \<times> string option"

text \<open>
  The list comprehension of \<^verbatim>\<open>parse_sitemap\<close>. \<^verbatim>\<open>url.find(...)\<close> is \<^verbatim>\<open>None\<close> for a
  missing child, and \<^verbatim>\<open>None.text\<close> raises AttributeError; nothing catches it.
\<close>

fun sitemap_entries :: "element list \<Rightarrow> error + sitemap_entry list" where
  "sitemap_entries [] = Inr []"
| "sitemap_entries (url # urls) =
     (case find_child ns_loc url of
        None \<Rightarrow> Inl AttributeError
      | Some loc \<Rightarrow>
          (case find_child ns_lastmod url of
             None \<Rightarrow> Inl AttributeError
           | Some lastmod \<Rightarrow>
               (case sitemap_entries urls of
                  Inl err \<Rightarrow> Inl err
                | Inr rest \<Rightarrow> Inr ((elem_text loc, elem_text lastmod) # rest))))"

text \<open>
  \<^verbatim>\<open>parse_sitemap\<close>, given what \<^verbatim>\<open>ET.parse(sitemap_path)\<close> did: it returned a tree or
  raised. Only \<^verbatim>\<open>ET.ParseError\<close> is caught, and answered with the empty list.
\<close>

definition parse_sitemap :: "error + element \<Rightarrow> error + sitemap_entry list" where
  "parse_sitemap et_parse =
     (case et_parse of
        Inl err \<Rightarrow> (if err = ParseError then Inr [] else Inl err)
      | Inr root \<Rightarrow> sitemap_entries (findall ns_url root))"

text \<open>
  The \<^verbatim>\<open>date\<close> argument is a string or a list of strings; \<^verbatim>\<open>lastmod == date\<close> is
  Python's equality, which is false between a string and a list and between
  \<^verbatim>\<open>None\<close> and either.
\<close>

datatype pydate = DateStr string | DateList "string list"

fun py_eq_date :: "string option \<Rightarrow> pydate \<Rightarrow> bool" where
  "py_eq_date (Some s) (DateStr d) = (s = d)"
| "py_eq_date lastmod date = False"

definition filter_urls_by_date :: "('u \<times> string option) list \<Rightarrow> pydate \<Rightarrow> 'u list" where
  "filter_urls_by_date urls date = [url. (url, lastmod) \<leftarrow> urls, py_eq_date lastmod date]"

text \<open>
  The functions of two arguments \<^verbatim>\<open>(urls, date)\<close> that are bound in the global scope of
  bot.py, by name. bot.py binds its names with \<^verbatim>\<open>from utils import *\<close>, and utils.py
  defines one such function, \<^verbatim>\<open>filter_urls_by_date\<close>; no file defines
  \<^verbatim>\<open>filter_urls_by_dates\<close>.
\<close>

definition bot_globals ::
  "string \<Rightarrow> (sitemap_entry list \<Rightarrow> pydate \<Rightarrow> string option list) option" where
  "bot_globals name = (if name = ''filter_urls_by_date'' then Some filter_urls_by_date else None)"

text \<open>
  The date-filtering step of \<^verbatim>\<open>process_sitemap\<close> (bot.py, lines 25 to 30): a string
  date is wrapped in a list, then the global name \<^verbatim>\<open>filter_urls_by_dates\<close> is looked
  up and called; an unbound name raises NameError.
\<close>

definition process_sitemap_filter ::
  "bool \<Rightarrow> pydate \<Rightarrow> sitemap_entry list \<Rightarrow> error + string option list" where
  "process_sitemap_filter filter_by_date date urls =
     (if filter_by_date
      then (let date = (case date of DateStr d \<Rightarrow> DateList [d] | DateList ds \<Rightarrow> DateList ds)
            in case bot_globals ''filter_urls_by_dates'' of
                 None \<Rightarrow> Inl (NameError ''filter_urls_by_dates'')
               | Some f \<Rightarrow> Inr (f urls date))
      else Inr [url. (url, lastmod) \<leftarrow> urls])"

section \<open>UrlStateStore: the log files\<close>

text \<open>
  A log is a text file, read with \<^verbatim>\<open>csv.reader\<close> and appended to with
  \<^verbatim>\<open>csv.writer\<close>. The file system maps a path to the text of the file there, or to
  \<open>None\<close> when there is no file. The \<^verbatim>\<open>csv\<close> module is a library; it is a parameter of
  the model, as two functions: \<open>csv_reader text\<close> are the rows (each a list of fields)
  that \<^verbatim>\<open>csv.reader\<close> yields on a file of that text, where an empty line reads as the
  empty row, and \<open>csv_writerow fields\<close> is the text that \<^verbatim>\<open>writer.writerow(fields)\<close>
  writes, line end included.
\<close>

type_synonym files = "string \<Rightarrow> string option"

text \<open>
  \<^verbatim>\<open>filter_processed_urls\<close>: \<^verbatim>\<open>row[0]\<close> raises IndexError on an empty row, and only
  FileNotFoundError is caught.
\<close>

fun first_fields :: "string list list \<Rightarrow> error + string list" where
  "first_fields [] = Inr []"
| "first_fields (row # rows) =
     (case py_index row 0 of
        Inl err \<Rightarrow> Inl err
      | Inr u \<Rightarrow> (case first_fields rows of Inl err \<Rightarrow> Inl err | Inr us \<Rightarrow> Inr (u # us)))"

definition filter_processed_urls ::
  "(string \<Rightarrow> string list list) \<Rightarrow> files \<Rightarrow> string list \<Rightarrow> string \<Rightarrow> error + string list" where
  "filter_processed_urls csv_reader fs urls file_path =
     (case fs file_path of
        None \<Rightarrow> Inr [url. url \<leftarrow> urls, url \<notin> {}]
      | Some f \<Rightarrow>
          (case first_fields (csv_reader f) of
             Inl err \<Rightarrow> Inl err
           | Inr us \<Rightarrow> Inr [url. url \<leftarrow> urls, url \<notin> set us]))"

text \<open>
  \<^verbatim>\<open>save_urls_to_file\<close>: nothing is written for an empty list; an exception while
  opening or writing is caught, and then the file is left as it was. \<open>append_fails\<close>
  says for which paths opening the file for appending raises. The file is opened in
  append mode: the text of each row is written after the text that is there, whether
  or not that text ends with a line end, and a missing file is created; \<open>text_of\<close> is
  the text of a file, empty for a missing one.
\<close>

definition text_of :: "files \<Rightarrow> string \<Rightarrow> string" where
  "text_of fs file_path = (case fs file_path of None \<Rightarrow> [] | Some f \<Rightarrow> f)"

definition save_urls_to_file ::
  "(string list \<Rightarrow> string) \<Rightarrow> (string \<Rightarrow> bool) \<Rightarrow> files \<Rightarrow> string \<Rightarrow> string list \<Rightarrow> files" where
  "save_urls_to_file csv_writerow append_fails fs file_path urls =
     (if length urls = 0 then fs
      else if append_fails file_path then fs
      else fs(file_path \<mapsto> text_of fs file_path
                                  @ concat (map (\<lambda>url. csv_writerow [url]) urls)))"

section \<open>FieldMapper: parse_data\<close>

text \<open>
  A value decoded from JSON. Numbers are integers here: the code reads a number only for
  its truth value and its lack of a length, where a float behaves as an integer does.
  \<open>JObj\<close> holds the items of a \<^verbatim>\<open>dict\<close> (its keys are distinct), looked up with
  \<open>map_of\<close>.
\<close>

datatype json =
    JNull
  | JBool bool
  | JNum int
  | JStr string
  | JArr "json list"
  | JObj "(string \<times> json) list"

text \<open>Python's truth value of a decoded value (\<^verbatim>\<open>not listing\<close>).\<close>

fun py_truthy :: "json \<Rightarrow> bool" where
  "py_truthy JNull = False"
| "py_truthy (JBool b) = b"
| "py_truthy (JNum n) = (n \<noteq> 0)"
| "py_truthy (JStr s) = (s \<noteq> [])"
| "py_truthy (JArr xs) = (xs \<noteq> [])"
| "py_truthy (JObj kvs) = (kvs \<noteq> [])"

text \<open>\<^verbatim>\<open>k in s\<close> between strings: \<open>k\<close> occurs in \<open>s\<close> as a substring.\<close>

fun starts_with :: "string \<Rightarrow> string \<Rightarrow> bool" where
  "starts_with s [] = True"
| "starts_with [] (k # ks) = False"
| "starts_with (x # xs) (k # ks) = (x = k \<and> starts_with xs ks)"

fun py_substring :: "string \<Rightarrow> string \<Rightarrow> bool" where
  "py_substring k [] = (k = [])"
| "py_substring k (x # xs) = (starts_with (x # xs) k \<or> py_substring k xs)"

text \<open>
  \<^verbatim>\<open>value in data\<close> for a string \<^verbatim>\<open>value\<close>: a key of a dict, an element of a list, a
  substring of a string; a number, a boolean and \<^verbatim>\<open>None\<close> are not iterable.
\<close>

fun py_contains :: "string \<Rightarrow> json \<Rightarrow> error + bool" where
  "py_contains k (JObj kvs) = Inr (map_of kvs k \<noteq> None)"
| "py_contains k (JArr xs) = Inr (JStr k \<in> set xs)"
| "py_contains k (JStr s) = Inr (py_substring k s)"
| "py_contains k v = Inl TypeError"

text \<open>\<^verbatim>\<open>data[value]\<close> for a string \<^verbatim>\<open>value\<close>: only a dict is indexed by a string.\<close>

fun py_getitem :: "json \<Rightarrow> string \<Rightarrow> error + json" where
  "py_getitem (JObj kvs) k = (case map_of kvs k of None \<Rightarrow> Inl KeyError | Some v \<Rightarrow> Inr v)"
| "py_getitem v k = Inl TypeError"

text \<open>\<^verbatim>\<open>len(v)\<close>.\<close>

fun py_len :: "json \<Rightarrow> error + nat" where
  "py_len (JStr s) = Inr (length s)"
| "py_len (JArr xs) = Inr (length xs)"
| "py_len (JObj kvs) = Inr (length kvs)"
| "py_len v = Inl TypeError"

text \<open>
  \<^verbatim>\<open>v[0]\<close>: the first element of a list, the first character of a string; a dict
  decoded from JSON has string keys only, so the key \<^verbatim>\<open>0\<close> is missing.
\<close>

fun py_getitem0 :: "json \<Rightarrow> error + json" where
  "py_getitem0 (JArr (x # xs)) = Inr x"
| "py_getitem0 (JArr []) = Inl IndexError"
| "py_getitem0 (JStr (c # cs)) = Inr (JStr [c])"
| "py_getitem0 (JStr []) = Inl IndexError"
| "py_getitem0 (JObj kvs) = Inl KeyError"
| "py_getitem0 v = Inl TypeError"

definition statuses :: "(string \<times> string) list" where
  "statuses =
     [(''comingSoon'', ''Coming Soon''),
      (''active'', ''Available''),
      (''openHouse'', ''Available''),
      (''justListed'', ''Available''),
      (''priceReduced'', ''Price reduced''),
      (''sold'', ''Sold'')]"

text \<open>
  \<^verbatim>\<open>statuses[v] if v in statuses else 'Available'\<close>: the membership test hashes \<open>v\<close>,
  and a list or a dict is unhashable; the keys are strings, so no other value is one.
\<close>

fun status_label :: "json \<Rightarrow> error + json" where
  "status_label (JStr s) =
     (case map_of statuses s of Some label \<Rightarrow> Inr (JStr label) | None \<Rightarrow> Inr (JStr ''Available''))"
| "status_label (JArr xs) = Inl TypeError"
| "status_label (JObj kvs) = Inl TypeError"
| "status_label v = Inr (JStr ''Available'')"

text \<open>The value that one pass of the loop of \<^verbatim>\<open>parse_data\<close> stores under \<open>field\<close>.\<close>

definition field_value :: "json \<Rightarrow> string \<Rightarrow> string \<Rightarrow> error + json" where
  "field_value data field val =
     (case py_contains val data of
        Inl err \<Rightarrow> Inl err
      | Inr present \<Rightarrow>
          if present then
            (case py_getitem data val of
               Inl err \<Rightarrow> Inl err
             | Inr dv \<Rightarrow>
                 if field = ''photourl'' then
                   (case py_len dv of
                      Inl err \<Rightarrow> Inl err
                    | Inr n \<Rightarrow> if n \<noteq> 0 then py_getitem0 dv else Inr (JStr []))
                 else if field = ''status'' then status_label dv
                 else Inr dv)
          else Inr (JStr []))"

text \<open>
  The loop of \<^verbatim>\<open>parse_data\<close> over \<^verbatim>\<open>toExtract.items()\<close>, with the dict \<open>response\<close> built
  so far; \<open>AList.update\<close> is the assignment \<^verbatim>\<open>response[field] = ...\<close>.
\<close>

fun parse_data_loop ::
  "json \<Rightarrow> (string \<times> string) list \<Rightarrow> (string \<times> json) list \<Rightarrow> error + (string \<times> json) list" where
  "parse_data_loop data [] response = Inr response"
| "parse_data_loop data ((field, val) # items) response =
     (case field_value data field val of
        Inl err \<Rightarrow> Inl err
      | Inr v \<Rightarrow> parse_data_loop data items (AList.update field v response))"

definition parse_data :: "json \<Rightarrow> (string \<times> string) list \<Rightarrow> error + (string \<times> json) list" where
  "parse_data data toExtract = parse_data_loop data toExtract []"

section \<open>ListingClient and Delivery: get_json_data and post_data\<close>

text \<open>
  What the code reads of a \<^verbatim>\<open>requests\<close> response: the status code, the text, and the
  body decoded by \<^verbatim>\<open>response.json()\<close> (\<open>None\<close> when the body is not JSON and decoding
  raises).
\<close>

record response =
  status_code :: int
  resp_text :: string
  resp_json :: "json option"

text \<open>
  The world outside the process. \<open>requests_get n api_url key (mlsid, address, domain)\<close>
  is the outcome of the \<open>n\<close>-th API call of one \<^verbatim>\<open>process_url\<close> run (counted from 0) and
  \<open>requests_post url data\<close> that of the webform call: a response, or \<open>None\<close> when the
  call raised a \<^verbatim>\<open>RequestException\<close> (a transport failure). \<open>append_fails\<close> says
  which files cannot be opened for appending; \<open>csv_reader\<close> and \<open>csv_writerow\<close> are
  the \<^verbatim>\<open>csv\<close> module.
\<close>

record world =
  url_parser :: urlparser
  requests_get :: "nat \<Rightarrow> string \<Rightarrow> string \<Rightarrow> string \<times> string \<times> string \<Rightarrow> response option"
  requests_post :: "string \<Rightarrow> (string \<times> json) list \<Rightarrow> response option"
  append_fails :: "string \<Rightarrow> bool"
  csv_reader :: "string \<Rightarrow> string list list"
  csv_writerow :: "string list \<Rightarrow> string"

text \<open>\<^verbatim>\<open>response.raise_for_status()\<close> raises for the status codes 400 to 599.\<close>

definition raises_for_status :: "response \<Rightarrow> bool" where
  "raises_for_status r = (400 \<le> status_code r \<and> status_code r < 600)"

text \<open>The second \<^verbatim>\<open>try\<close> block of \<^verbatim>\<open>get_json_data\<close>, up to \<^verbatim>\<open>response['listing']\<close>.\<close>

definition response_listing :: "response \<Rightarrow> error + json" where
  "response_listing r =
     (case resp_json r of
        None \<Rightarrow> Inl JSONDecodeError
      | Some body \<Rightarrow> py_getitem body ''listing'')"

text \<open>
  \<^verbatim>\<open>get_json_data\<close> returns the listing, or \<^verbatim>\<open>False\<close> (here \<open>None\<close>): when a part of
  the key is \<^verbatim>\<open>None\<close> or empty, when the call raised, when the status raises, when the
  body does not decode to a dict with the key, and when the listing is falsy.
\<close>

definition get_json_data :: "world \<Rightarrow> nat \<Rightarrow> string \<Rightarrow> string \<Rightarrow> string \<Rightarrow> json option" where
  "get_json_data w n api_url url key =
     (case extract_params_from_url (url_parser w) url of
        (Some domain, Some mlsid, Some address) \<Rightarrow>
          if domain = [] \<or> mlsid = [] \<or> address = [] then None
          else
            (case requests_get w n api_url key (mlsid, address, domain) of
               None \<Rightarrow> None
             | Some r \<Rightarrow>
                 if raises_for_status r then None
                 else
                   (case response_listing r of
                      Inl err \<Rightarrow> None
                    | Inr listing \<Rightarrow> if py_truthy listing then Some listing else None))
      | _ \<Rightarrow> None)"

text \<open>
  \<^verbatim>\<open>post_data\<close> has no \<^verbatim>\<open>try\<close>: an exception of \<^verbatim>\<open>requests.post\<close> leaves the
  function. It returns \<^verbatim>\<open>True\<close> for status 200 and falls off its end otherwise, which
  returns \<^verbatim>\<open>None\<close>.
\<close>

datatype pyret = PyTrue | PyNone

definition post_data :: "world \<Rightarrow> string \<Rightarrow> (string \<times> json) list \<Rightarrow> error + pyret" where
  "post_data w url data =
     (case requests_post w url data of
        None \<Rightarrow> Inl RequestException
      | Some r \<Rightarrow> if status_code r = 200 then Inr PyTrue else Inr PyNone)"

section \<open>Orchestrator: process_url\<close>

text \<open>The keys of the configuration that \<^verbatim>\<open>process_url\<close> reads.\<close>

record config =
  api_url :: string
  vendor_token :: string
  webform_url :: string
  processed_urls :: string
  unprocessed_urls :: string
  unsaved_urls :: string
  api_extraction :: "(string \<times> string) list"

text \<open>
  The \<^verbatim>\<open>while\<close> loop of \<^verbatim>\<open>process_url\<close>, entered with \<open>extracted\<close> falsy: it ends
  with what was extracted (\<open>None\<close> when the cutoffs ran out), or leaves the function
  early when no target URL could be made. \<open>n\<close> counts the API calls made so far.
\<close>

datatype loop_result = EarlyReturn | LoopEnd "json option"

function cutoff_loop :: "world \<Rightarrow> config \<Rightarrow> string \<Rightarrow> int \<Rightarrow> int \<Rightarrow> nat \<Rightarrow> loop_result" where
  "cutoff_loop w c url max_cutoff current_cutoff n =
     (if current_cutoff \<le> max_cutoff then
        (case create_target_url url current_cutoff of
           None \<Rightarrow> EarlyReturn
         | Some new_url \<Rightarrow>
             (case get_json_data w n (api_url c) new_url (vendor_token c) of
                None \<Rightarrow> cutoff_loop w c url max_cutoff (current_cutoff + 1) (Suc n)
              | Some extracted \<Rightarrow> LoopEnd (Some extracted)))
      else LoopEnd None)"
  by pat_completeness auto
termination
  by (relation "measure (\<lambda>(w, c, url, max_cutoff, current_cutoff, n). nat (max_cutoff + 1 - current_cutoff))") auto

declare cutoff_loop.simps [simp del]

text \<open>
  \<^verbatim>\<open>process_url\<close> on the files \<open>fs\<close>: its return value, or the exception that left
  it, and the files afterwards.
\<close>

definition process_url :: "world \<Rightarrow> config \<Rightarrow> string \<Rightarrow> int \<Rightarrow> files \<Rightarrow> (error + bool) \<times> files" where
  "process_url w c url max_cutoff fs =
     (case cutoff_loop w c url max_cutoff 3 0 of
        EarlyReturn \<Rightarrow> (Inr False, save_urls_to_file (csv_writerow w) (append_fails w) fs (unprocessed_urls c) [url])
      | LoopEnd None \<Rightarrow> (Inr False, save_urls_to_file (csv_writerow w) (append_fails w) fs (unprocessed_urls c) [url])
      | LoopEnd (Some extracted) \<Rightarrow>
          (case parse_data extracted (api_extraction c) of
             Inl err \<Rightarrow> (Inl err, fs)
           | Inr needed \<Rightarrow>
               (case post_data w (webform_url c) needed of
                  Inl err \<Rightarrow> (Inl err, fs)
                | Inr processed \<Rightarrow>
                    if processed = PyNone
                    then (Inr False, save_urls_to_file (csv_writerow w) (append_fails w) fs (unsaved_urls c) [url])
                    else (Inr True, save_urls_to_file (csv_writerow w) (append_fails w) fs (processed_urls c) [url]))))"

section \<open>Concrete inputs\<close>

text \<open>
  A configuration, responses and worlds at which the functions are evaluated below. The
  public URL is the one of driver.py.
\<close>

definition example_config :: config where
  "example_config =
     \<lparr>api_url = ''https://api.example.com/listing'', vendor_token = ''token'',
      webform_url = ''https://forms.example.com/listing'',
      processed_urls = ''processed.csv'', unprocessed_urls = ''unprocessed.csv'',
      unsaved_urls = ''unsaved.csv'',
      api_extraction =
        [(''status'', ''mlsStatus''), (''photourl'', ''photos''), (''price'', ''listPrice'')]\<rparr>"

definition example_url :: string where
  "example_url =
     ''https://www.sellwithduran.com/property/1-H6255197-253-Merrick-Avenue-Hempstead-NY-11554''"

definition example_listing :: json where
  "example_listing = JObj [(''mlsStatus'', JStr ''sold''), (''photos'', JArr [JStr ''a.jpg''])]"

definition listing_response :: response where
  "listing_response =
     \<lparr>status_code = 200, resp_text = [], resp_json = Some (JObj [(''listing'', example_listing)])\<rparr>"

definition not_found_response :: response where
  "not_found_response = \<lparr>status_code = 404, resp_text = ''Not Found'', resp_json = None\<rparr>"

definition ok_response :: response where
  "ok_response = \<lparr>status_code = 200, resp_text = ''ok'', resp_json = None\<rparr>"

definition server_error_response :: response where
  "server_error_response =
     \<lparr>status_code = 500, resp_text = ''Internal Server Error'', resp_json = None\<rparr>"

text \<open>The API answers every call with the listing, or only the second call (cutoff 4).\<close>

definition found_at_once :: "nat \<Rightarrow> response option" where
  "found_at_once n = Some listing_response"

definition found_at_second_call :: "nat \<Rightarrow> response option" where
  "found_at_second_call n = (if n = 1 then Some listing_response else Some not_found_response)"

definition never_found :: "nat \<Rightarrow> response option" where
  "never_found n = Some not_found_response"

text \<open>
  What the \<^verbatim>\<open>csv\<close> module does on plain text: fields that are not empty and hold no
  comma, quote or line end, and lines that end with \<^verbatim>\<open>\r\n\<close> or \<^verbatim>\<open>\n\<close>, but for the
  last one, which may lack its line end. A row is written as its fields, joined by
  commas, and \<^verbatim>\<open>\r\n\<close>; the text is read line by line, an empty line as the empty row.
  They are used at concrete texts of that shape only.
\<close>

definition crlf :: string where
  "crlf = [CHR 0x0D, CHR 0x0A]"

definition csv_plain_writerow :: "string list \<Rightarrow> string" where
  "csv_plain_writerow row = py_join '','' row @ crlf"

definition plain_lines :: "string \<Rightarrow> string list" where
  "plain_lines f =
     (case rev (py_split (CHR 0x0A) (filter (\<lambda>x. x \<noteq> CHR 0x0D) f)) of
        [] \<Rightarrow> []
      | l # ls \<Rightarrow> if l = [] then rev ls else rev (l # ls))"

definition csv_plain_reader :: "string \<Rightarrow> string list list" where
  "csv_plain_reader f =
     map (\<lambda>line. if line = [] then [] else py_split CHR '','' line) (plain_lines f)"

text \<open>
  A world from the answers of the API, the outcome of the webform call (\<open>None\<close>: the
  call raised) and whether log files can be opened for appending.
\<close>

definition example_world :: "(nat \<Rightarrow> response option) \<Rightarrow> response option \<Rightarrow> bool \<Rightarrow> world" where
  "example_world get post fails =
     \<lparr>url_parser = urlparse_plain,
      requests_get = (\<lambda>n api_url key params. get n),
      requests_post = (\<lambda>url data. post),
      append_fails = (\<lambda>file_path. fails),
      csv_reader = csv_plain_reader,
      csv_writerow = csv_plain_writerow\<rparr>"

definition no_files :: files where
  "no_files = (\<lambda>file_path. None)"

text \<open>A sitemap of two entries, the second without its \<^verbatim>\<open>lastmod\<close> child.\<close>

definition sitemap_missing_lastmod :: element where
  "sitemap_missing_lastmod =
     Element ''{http://www.sitemaps.org/schemas/sitemap/0.9}urlset'' None
       [Element ns_url None
          [Element ns_loc (Some ''https://www.sellwithduran.com/property/1-A1-1-Elm-St-Town-NY-11554'') [],
           Element ns_lastmod (Some ''2024-01-01'') []],
        Element ns_url None
          [Element ns_loc (Some ''https://www.sellwithduran.com/property/1-A2-2-Elm-St-Town-NY-11554'') []]]"

definition sitemap_complete :: element where
  "sitemap_complete =
     Element ''{http://www.sitemaps.org/schemas/sitemap/0.9}urlset'' None
       [Element ns_url None
          [Element ns_loc (Some ''https://www.sellwithduran.com/property/1-A1-1-Elm-St-Town-NY-11554'') [],
           Element ns_lastmod (Some ''2024-01-01'') []],
        Element ns_url None
          [Element ns_loc (Some ''https://www.sellwithduran.com/property/1-A2-2-Elm-St-Town-NY-11554'') [],
           Element ns_lastmod (Some ''2023-12-31'') []]]"

text \<open>
  The worlds of the evaluations: the listing is found at the second API call and the
  webform answers 200; the listing is found and the webform call raises; the listing
  is found and the webform answers 500; the listing is found, the webform answers 200
  and no log file can be opened for appending.
\<close>

definition world_found_second :: world where
  "world_found_second = example_world found_at_second_call (Some ok_response) False"

definition world_post_raises :: world where
  "world_post_raises = example_world found_at_once None False"

definition world_post_500 :: world where
  "world_post_500 = example_world found_at_once (Some server_error_response) False"


section \<open>The per-URL state machine of the specification\<close>

text \<open>
  The state machine in the words of the specification: the cutoffs are tried in order;
  a cutoff whose target URL cannot be made aborts, a cutoff whose extraction fails
  hands over to the next one, an extraction that succeeds ends the search, and when no
  cutoff is left nothing was extracted. \<open>n\<close> counts the API calls made so far.
\<close>

fun try_cutoffs :: "world \<Rightarrow> config \<Rightarrow> string \<Rightarrow> int list \<Rightarrow> nat \<Rightarrow> loop_result" where
  "try_cutoffs w c url [] n = LoopEnd None"
| "try_cutoffs w c url (cutoff # cutoffs) n =
     (case create_target_url url cutoff of
        None \<Rightarrow> EarlyReturn
      | Some new_url \<Rightarrow>
          (case get_json_data w n (api_url c) new_url (vendor_token c) of
             None \<Rightarrow> try_cutoffs w c url cutoffs (Suc n)
           | Some extracted \<Rightarrow> LoopEnd (Some extracted)))"

section \<open>Properties of the built-ins\<close>

lemma comprehension_filter: "[x. x \<leftarrow> xs, P x] = filter P xs"
  by (induction xs) simp_all

lemma nat_length_minus: "0 < k \<Longrightarrow> nat (int n - k) = n - nat k"
  by arith

lemma py_slice_to_negative:
  "0 < cutoff \<Longrightarrow> py_slice_to (- cutoff) xs = take (length xs - nat cutoff) xs"
  unfolding py_slice_to_def by (simp add: nat_length_minus)

lemma py_slice_to_zero: "py_slice_to 0 xs = []"
  by (simp add: py_slice_to_def)

lemma py_split_not_Nil: "py_split c s \<noteq> []"
  by (induction s) (auto split: list.splits)

section \<open>UrlResolver\<close>

text \<open>
  For a cutoff of at least 1 \<^verbatim>\<open>create_target_url\<close> drops that many trailing segments
  and builds the target from segment 1 and the remaining ones; it returns \<^verbatim>\<open>False\<close>
  exactly when fewer than two segments are left.
\<close>

lemma create_target_url_positive_cutoff:
  assumes "0 < cutoff"
  shows "create_target_url url cutoff =
     (let segs = py_split CHR ''-'' url;
          parts = take (length segs - nat cutoff) segs
      in if length parts < 2 then None
         else Some (''https://www.sellwithduran.com/property/'' @ parts ! 1 @ ''/''
                    @ py_join ''-'' (drop 2 parts) @ ''/''))"
proof -
  have s: "py_slice_to (- cutoff) (py_split CHR ''-'' url)
           = take (length (py_split CHR ''-'' url) - nat cutoff) (py_split CHR ''-'' url)"
    using assms by (rule py_slice_to_negative)
  show ?thesis
    unfolding create_target_url_def create_target_url_try_def Let_def s py_index_def
    by (simp del: length_take)
qed

text \<open>With cutoff 0 the slice is empty, whatever the URL: the result is \<^verbatim>\<open>False\<close>.\<close>

lemma create_target_url_zero: "create_target_url url 0 = None"
  by (simp add: create_target_url_def create_target_url_try_def py_slice_to_zero py_index_def)

text \<open>
  C6 (resolve drops the trailing cutoff segments, for every URL and cutoff): the code
  departs from it at cutoff 0. The public URL below has five hyphen-delimited segments;
  with no segment dropped the target would be built from segment 1, \<^verbatim>\<open>H6255197\<close>, but
  \<^verbatim>\<open>parts[:-0]\<close> is the empty list and the function returns \<^verbatim>\<open>False\<close>. At cutoff 1 it
  does drop one segment.
\<close>

theorem create_target_url_cutoff_zero_fails:
  "create_target_url ''https://www.sellwithduran.com/property/1-H6255197-253-Merrick-Avenue'' 0 = None
   \<and> create_target_url ''https://www.sellwithduran.com/property/1-H6255197-253-Merrick-Avenue'' 1
       = Some ''https://www.sellwithduran.com/property/H6255197/253-Merrick/''"
  by code_simp

text \<open>
  C5 as the code has it (extractKey): the domain is the network location, the MLS id is
  path segment 1 and the address is path segment 2, the third one, with hyphens
  replaced by spaces; the failure value \<^verbatim>\<open>(None, None, None)\<close> is returned, and nothing
  is raised, exactly when \<^verbatim>\<open>urlparse\<close> raises or the path has fewer than 3 segments.
\<close>

theorem extract_params_third_segment:
  "extract_params_from_url up url =
     (case up url of
        Inl err \<Rightarrow> (None, None, None)
      | Inr parsed \<Rightarrow>
          (let segs = py_split CHR ''/'' (py_strip CHR ''/'' (path parsed))
           in if length segs < 3 then (None, None, None)
              else (Some (netloc parsed), Some (segs ! 1),
                    Some (py_replace CHR ''-'' CHR '' '' (segs ! 2)))))"
  by (auto simp: extract_params_from_url_def extract_params_try_def py_index_def Let_def
           split: sum.splits)

theorem extract_params_third_segment_witness:
  "extract_params_from_url urlparse_plain
      ''https://www.sellwithduran.com/property/3483489/18-Greenbrush-Court/''
   = (Some ''www.sellwithduran.com'', Some ''3483489'', Some ''18 Greenbrush Court'')"
proof -
  have "extract_params_from_url urlparse_plain
          ''https://www.sellwithduran.com/property/3483489/18-Greenbrush-Court/''
        = (case urlparse_plain ''https://www.sellwithduran.com/property/3483489/18-Greenbrush-Court/'' of
             Inl err \<Rightarrow> (None, None, None)
           | Inr parsed \<Rightarrow>
               (let segs = py_split CHR ''/'' (py_strip CHR ''/'' (path parsed))
                in if length segs < 3 then (None, None, None)
                   else (Some (netloc parsed), Some (segs ! 1),
                         Some (py_replace CHR ''-'' CHR '' '' (segs ! 2)))))"
    by (rule extract_params_third_segment)
  also have "\<dots> = (Some ''www.sellwithduran.com'', Some ''3483489'', Some ''18 Greenbrush Court'')"
    by code_simp
  finally show ?thesis .
qed

text \<open>
  C5 as stated fails: a path of two segments, \<^verbatim>\<open>property\<close> and \<^verbatim>\<open>3483489\<close>, is answered
  with the failure value, and with three segments the address is the third one, not the
  second.
\<close>

theorem extract_params_two_segments_fail:
  "length (py_split CHR ''/'' (py_strip CHR ''/'' ''/property/3483489'')) = 2
   \<and> extract_params_from_url urlparse_plain ''https://www.sellwithduran.com/property/3483489''
       = (None, None, None)
   \<and> extract_params_from_url urlparse_plain
         ''https://www.sellwithduran.com/property/3483489/18-Greenbrush-Court/''
       \<noteq> (Some ''www.sellwithduran.com'', Some ''property'', Some ''3483489'')"
  by code_simp

section \<open>SitemapSource\<close>

text \<open>
  The entries are read off exactly when every \<^verbatim>\<open>url\<close> element has both children; the
  first element that lacks one ends the comprehension with AttributeError.
\<close>

lemma sitemap_entries_complete:
  "list_all (\<lambda>url. find_child ns_loc url \<noteq> None \<and> find_child ns_lastmod url \<noteq> None) urls
   \<Longrightarrow> sitemap_entries urls
       = Inr (map (\<lambda>url. (elem_text (the (find_child ns_loc url)),
                          elem_text (the (find_child ns_lastmod url)))) urls)"
  by (induction urls) auto

lemma sitemap_entries_missing_child:
  "list_ex (\<lambda>url. find_child ns_loc url = None \<or> find_child ns_lastmod url = None) urls
   \<Longrightarrow> sitemap_entries urls = Inl AttributeError"
  by (induction urls) (auto split: option.splits sum.splits)

lemma parse_sitemap_parse_error: "parse_sitemap (Inl ParseError) = Inr []"
  by (simp add: parse_sitemap_def)

lemma parse_sitemap_missing_child:
  "list_ex (\<lambda>url. find_child ns_loc url = None \<or> find_child ns_lastmod url = None)
     (findall ns_url root)
   \<Longrightarrow> parse_sitemap (Inr root) = Inl AttributeError"
  by (simp add: parse_sitemap_def sitemap_entries_missing_child)

text \<open>
  C4 (an entry missing \<^verbatim>\<open>loc\<close> or \<^verbatim>\<open>lastmod\<close> must not crash the whole parse): the code
  departs from it. On a sitemap of two entries whose second one has no \<^verbatim>\<open>lastmod\<close>,
  \<^verbatim>\<open>parse_sitemap\<close> ends by an AttributeError that nothing catches, and no entry is
  returned; the same sitemap with both children in place parses to its two entries.
\<close>

theorem parse_sitemap_missing_lastmod_raises:
  "parse_sitemap (Inr sitemap_missing_lastmod) = Inl AttributeError
   \<and> parse_sitemap (Inr sitemap_complete)
       = Inr [(Some ''https://www.sellwithduran.com/property/1-A1-1-Elm-St-Town-NY-11554'',
               Some ''2024-01-01''),
              (Some ''https://www.sellwithduran.com/property/1-A2-2-Elm-St-Town-NY-11554'',
               Some ''2023-12-31'')]"
  by code_simp

text \<open>
  The one date filter that utils.py defines selects the entries of a single date, by
  string equality, in their order; given a list of dates it selects nothing.
\<close>

lemma filter_urls_by_date_single:
  "filter_urls_by_date urls (DateStr d) = map fst (filter (\<lambda>entry. snd entry = Some d) urls)"
proof (induction urls)
  case Nil
  then show ?case by (simp add: filter_urls_by_date_def)
next
  case (Cons entry urls)
  obtain url lastmod where e: "entry = (url, lastmod)" by (cases entry)
  from Cons show ?case
    by (cases lastmod) (simp_all add: filter_urls_by_date_def e)
qed

lemma filter_urls_by_date_list: "filter_urls_by_date urls (DateList ds) = []"
  by (induction urls) (auto simp: filter_urls_by_date_def)

lemma filter_urls_by_dates_unbound: "bot_globals ''filter_urls_by_dates'' = None"
  by (simp add: bot_globals_def)

lemma process_sitemap_filter_enabled:
  "process_sitemap_filter True date urls = Inl (NameError ''filter_urls_by_dates'')"
  by (simp add: process_sitemap_filter_def filter_urls_by_dates_unbound)

lemma process_sitemap_filter_disabled:
  "process_sitemap_filter False date urls = Inr (map fst urls)"
  by (induction urls) (auto simp: process_sitemap_filter_def)

text \<open>
  C1 (the date-filtering step keeps exactly the entries whose \<^verbatim>\<open>lastModified\<close> equals a
  requested date): the code departs from it. With date filtering enabled the step calls
  \<^verbatim>\<open>filter_urls_by_dates\<close>, a name that no file binds, and ends by NameError: for the
  requested date 2024-01-01 the entry of that date is not selected, and nothing reaches
  the state-store filtering.
\<close>

theorem process_sitemap_filter_name_error:
  "process_sitemap_filter True (DateStr ''2024-01-01'')
      [(Some ''https://www.sellwithduran.com/property/1-A1-1-Elm-St-Town-NY-11554'', Some ''2024-01-01''),
       (Some ''https://www.sellwithduran.com/property/1-A2-2-Elm-St-Town-NY-11554'', Some ''2023-12-31'')]
   = Inl (NameError ''filter_urls_by_dates'')"
  by (rule process_sitemap_filter_enabled)

section \<open>UrlStateStore\<close>

lemma first_fields_nonempty:
  "list_all (\<lambda>row. row \<noteq> []) rows \<Longrightarrow> first_fields rows = Inr (map hd rows)"
  by (induction rows) (auto simp: py_index_def hd_conv_nth)

lemma first_fields_empty_row: "[] \<in> set rows \<Longrightarrow> first_fields rows = Inl IndexError"
  by (induction rows) (auto simp: py_index_def split: sum.splits)

lemma first_fields_cases:
  "first_fields rows = (if [] \<in> set rows then Inl IndexError else Inr (map hd rows))"
proof (cases "[] \<in> set rows")
  case True
  then show ?thesis by (simp add: first_fields_empty_row)
next
  case False
  then have "list_all (\<lambda>row. row \<noteq> []) rows" by (auto simp: list_all_iff)
  with False show ?thesis by (simp add: first_fields_nonempty)
qed


text \<open>
  The text of the row is appended to the text of the log as it is: on a log that ends
  with a line end the URL becomes a row of its own, and on a log whose last line lacks
  its line end the URL is glued to the last field.
\<close>

lemma save_urls_to_file_terminated_log:
  "csv_plain_reader
     (text_of (save_urls_to_file csv_plain_writerow (\<lambda>file_path. False)
                 (no_files(''processed.csv'' \<mapsto> ''u1'' @ crlf)) ''processed.csv'' [''u2''])
        ''processed.csv'')
   = [[''u1''], [''u2'']]"
  by code_simp

lemma save_urls_to_file_unterminated_log:
  "csv_plain_reader
     (text_of (save_urls_to_file csv_plain_writerow (\<lambda>file_path. False)
                 (no_files(''processed.csv'' \<mapsto> ''u1'')) ''processed.csv'' [''u2''])
        ''processed.csv'')
   = [[''u1u2'']]"
  by code_simp

text \<open>
  C7 as the code has it (filterUnseen): a missing log file gives back all URLs and
  raises nothing; on a log in which every row holds a field, the set is the first field
  of each row, and the URLs outside it are returned in their order; on a log with an
  empty row, which a blank line is, \<^verbatim>\<open>row[0]\<close> raises IndexError.
\<close>

theorem filter_processed_urls_removes_logged:
  "filter_processed_urls rd fs urls file_path =
     (case fs file_path of
        None \<Rightarrow> Inr urls
      | Some f \<Rightarrow>
          if [] \<in> set (rd f) then Inl IndexError
          else Inr (filter (\<lambda>url. url \<notin> hd ` set (rd f)) urls))"
  by (cases "fs file_path")
     (simp_all add: filter_processed_urls_def first_fields_cases comprehension_filter)

theorem filter_processed_urls_removes_logged_witness:
  "filter_processed_urls csv_plain_reader
       (no_files(''processed.csv'' \<mapsto> ''u1'' @ crlf @ ''u3'' @ crlf))
       [''u4'', ''u1'', ''u2'', ''u3''] ''processed.csv'' = Inr [''u4'', ''u2'']
   \<and> filter_processed_urls csv_plain_reader no_files [''u4'', ''u1'', ''u2'', ''u3''] ''processed.csv''
       = Inr [''u4'', ''u1'', ''u2'', ''u3'']"
proof -
  have "filter_processed_urls csv_plain_reader
          (no_files(''processed.csv'' \<mapsto> ''u1'' @ crlf @ ''u3'' @ crlf))
          [''u4'', ''u1'', ''u2'', ''u3''] ''processed.csv''
        = (case (no_files(''processed.csv'' \<mapsto> ''u1'' @ crlf @ ''u3'' @ crlf)) ''processed.csv'' of
             None \<Rightarrow> Inr [''u4'', ''u1'', ''u2'', ''u3'']
           | Some f \<Rightarrow>
               if [] \<in> set (csv_plain_reader f) then Inl IndexError
               else Inr (filter (\<lambda>url. url \<notin> hd ` set (csv_plain_reader f))
                           [''u4'', ''u1'', ''u2'', ''u3'']))"
    by (rule filter_processed_urls_removes_logged)
  also have "\<dots> = Inr [''u4'', ''u2'']"
    by code_simp
  finally have logged:
    "filter_processed_urls csv_plain_reader
       (no_files(''processed.csv'' \<mapsto> ''u1'' @ crlf @ ''u3'' @ crlf))
       [''u4'', ''u1'', ''u2'', ''u3''] ''processed.csv'' = Inr [''u4'', ''u2'']" .
  have "filter_processed_urls csv_plain_reader no_files [''u4'', ''u1'', ''u2'', ''u3''] ''processed.csv''
        = (case no_files ''processed.csv'' of
             None \<Rightarrow> Inr [''u4'', ''u1'', ''u2'', ''u3'']
           | Some f \<Rightarrow>
               if [] \<in> set (csv_plain_reader f) then Inl IndexError
               else Inr (filter (\<lambda>url. url \<notin> hd ` set (csv_plain_reader f))
                           [''u4'', ''u1'', ''u2'', ''u3'']))"
    by (rule filter_processed_urls_removes_logged)
  also have "\<dots> = Inr [''u4'', ''u1'', ''u2'', ''u3'']"
    by (simp add: no_files_def)
  finally have missing:
    "filter_processed_urls csv_plain_reader no_files [''u4'', ''u1'', ''u2'', ''u3''] ''processed.csv''
     = Inr [''u4'', ''u1'', ''u2'', ''u3'']" .
  from logged missing show ?thesis by (rule conjI)
qed

text \<open>
  C7 as stated fails: on a log with a blank line between its two URLs, here the rows
  \<^verbatim>\<open>u1\<close>, the empty row and \<^verbatim>\<open>u3\<close>, \<^verbatim>\<open>filter_processed_urls\<close> raises IndexError and
  returns no URL.
\<close>

theorem filter_processed_urls_blank_line_raises:
  "csv_plain_reader (''u1'' @ crlf @ crlf @ ''u3'' @ crlf) = [[''u1''], [], [''u3'']]
   \<and> filter_processed_urls csv_plain_reader
        (no_files(''processed.csv'' \<mapsto> ''u1'' @ crlf @ crlf @ ''u3'' @ crlf))
        [''u4'', ''u1'', ''u2'', ''u3''] ''processed.csv'' = Inl IndexError"
  by code_simp

section \<open>FieldMapper\<close>

lemma field_value_absent: "map_of kvs k = None \<Longrightarrow> field_value (JObj kvs) f k = Inr (JStr [])"
  by (simp add: field_value_def)

text \<open>The loop stores a value under every field of the mapping, and under no other.\<close>

lemma parse_data_loop_fields:
  "parse_data_loop data items acc = Inr r \<Longrightarrow> fst ` set r = fst ` set acc \<union> fst ` set items"
proof (induction items arbitrary: acc)
  case Nil
  then show ?case by simp
next
  case (Cons it items)
  obtain f k where it: "it = (f, k)" by (cases it)
  from Cons.prems it obtain v where "field_value data f k = Inr v"
    and rest: "parse_data_loop data items (AList.update f v acc) = Inr r"
    by (auto split: sum.splits)
  from Cons.IH [OF rest] show ?case
    by (auto simp: it dom_update)
qed

lemma parse_data_loop_keeps:
  "parse_data_loop data items acc = Inr r \<Longrightarrow> f \<notin> fst ` set items \<Longrightarrow> map_of r f = map_of acc f"
proof (induction items arbitrary: acc)
  case Nil
  then show ?case by simp
next
  case (Cons it items)
  obtain g k where it: "it = (g, k)" by (cases it)
  from Cons.prems it obtain v where "field_value data g k = Inr v"
    and rest: "parse_data_loop data items (AList.update g v acc) = Inr r"
    by (auto split: sum.splits)
  from Cons.prems it have "f \<noteq> g" "f \<notin> fst ` set items" by auto
  with Cons.IH [OF rest] show ?case
    by (simp add: update_conv')
qed

text \<open>With distinct fields, as the keys of a dict are, each field holds the value of its pass.\<close>

lemma parse_data_loop_value:
  "parse_data_loop data items acc = Inr r \<Longrightarrow> distinct (map fst items) \<Longrightarrow> (f, k) \<in> set items
     \<Longrightarrow> \<exists>v. field_value data f k = Inr v \<and> map_of r f = Some v"
proof (induction items arbitrary: acc)
  case Nil
  then show ?case by simp
next
  case (Cons it items)
  obtain g j where it: "it = (g, j)" by (cases it)
  from Cons.prems it obtain v where v: "field_value data g j = Inr v"
    and rest: "parse_data_loop data items (AList.update g v acc) = Inr r"
    by (auto split: sum.splits)
  show ?case
  proof (cases "(f, k) = (g, j)")
    case True
    from Cons.prems(2) it have "g \<notin> fst ` set items" by auto
    from parse_data_loop_keeps [OF rest this] have "map_of r g = Some v"
      by (simp add: update_conv')
    with True v show ?thesis by simp
  next
    case False
    with Cons.prems(3) it have "(f, k) \<in> set items" by auto
    moreover from Cons.prems(2) have "distinct (map fst items)" by simp
    ultimately show ?thesis using Cons.IH [OF rest] by blast
  qed
qed

text \<open>The loop raises only what a pass raises.\<close>

lemma parse_data_loop_error:
  "parse_data_loop data items acc = Inl err
   \<Longrightarrow> list_ex (\<lambda>(f, k). field_value data f k = Inl err) items"
proof (induction items arbitrary: acc)
  case Nil
  then show ?case by simp
next
  case (Cons it items)
  obtain g j where it: "it = (g, j)" by (cases it)
  show ?case
  proof (cases "field_value data g j")
    case (Inl e)
    with Cons.prems it show ?thesis by simp
  next
    case (Inr v)
    with Cons.prems it have "parse_data_loop data items (AList.update g v acc) = Inl err" by simp
    from Cons.IH [OF this] show ?thesis by simp
  qed
qed

text \<open>A mapping whose source keys are all missing from the record never raises.\<close>

lemma parse_data_all_missing:
  assumes "list_all (\<lambda>(f, k). map_of kvs k = None) toExtract"
  shows "\<exists>response. parse_data (JObj kvs) toExtract = Inr response"
proof (cases "parse_data (JObj kvs) toExtract")
  case (Inl err)
  then have "parse_data_loop (JObj kvs) toExtract [] = Inl err" by (simp add: parse_data_def)
  from parse_data_loop_error [OF this]
  obtain f k where "(f, k) \<in> set toExtract" and bad: "field_value (JObj kvs) f k = Inl err"
    by (auto simp: list_ex_iff)
  with assms have "map_of kvs k = None" by (auto simp: list_all_iff)
  from field_value_absent [OF this, of f] bad show ?thesis by simp
next
  case (Inr response)
  then show ?thesis by blast
qed

text \<open>On a dict without the key, the assignment \<^verbatim>\<open>response[field] = ...\<close> adds the item at the end.\<close>

lemma update_fresh: "f \<notin> fst ` set al \<Longrightarrow> AList.update f v al = al @ [(f, v)]"
  by (induction al) auto

text \<open>
  With distinct fields the result lists the fields of the mapping, in its order, each
  with the value of its own pass.
\<close>

lemma parse_data_loop_items:
  "parse_data_loop data items acc = Inr r \<Longrightarrow> distinct (map fst acc @ map fst items)
   \<Longrightarrow> map (\<lambda>(f, v). (f, Inr v :: error + json)) r
       = map (\<lambda>(f, v). (f, Inr v)) acc @ map (\<lambda>(f, k). (f, field_value data f k)) items"
proof (induction items arbitrary: acc)
  case Nil
  then show ?case by simp
next
  case (Cons it items)
  obtain g j where it: "it = (g, j)" by (cases it)
  from Cons.prems(1) it obtain v where v: "field_value data g j = Inr v"
    and rest: "parse_data_loop data items (AList.update g v acc) = Inr r"
    by (auto split: sum.splits)
  from Cons.prems(2) it have fresh: "g \<notin> fst ` set acc" by auto
  then have upd: "AList.update g v acc = acc @ [(g, v)]" by (rule update_fresh)
  from Cons.prems(2) it have "distinct (map fst (acc @ [(g, v)]) @ map fst items)" by auto
  with Cons.IH [of "acc @ [(g, v)]"] rest upd
  have "map (\<lambda>(f, v). (f, Inr v :: error + json)) r
        = map (\<lambda>(f, v). (f, Inr v)) (acc @ [(g, v)])
          @ map (\<lambda>(f, k). (f, field_value data f k)) items"
    by simp
  with v it show ?case by simp
qed

text \<open>A field other than \<^verbatim>\<open>photourl\<close> and \<^verbatim>\<open>status\<close> holds the raw value of its source key.\<close>

lemma parse_data_loop_passthrough:
  assumes "parse_data_loop (JObj kvs) items acc = Inr r" and "distinct (map fst items)"
    and "(f, k) \<in> set items" and "map_of kvs k = Some raw"
    and "f \<noteq> ''photourl''" and "f \<noteq> ''status''"
  shows "map_of r f = Some raw"
proof -
  from assms(4-6) have "field_value (JObj kvs) f k = Inr raw"
    by (simp add: field_value_def)
  with parse_data_loop_value [OF assms(1-3)] show ?thesis by auto
qed

text \<open>
  C9 (map and a missing source key): for a record and a mapping with distinct output
  fields, as the keys of a dict are, whenever \<^verbatim>\<open>parse_data\<close> returns, the result lists
  every output field of the mapping, in the mapping's order, each with the value of its
  own pass: the empty string for a field whose source key is missing from the record,
  and the raw value for a field with a present source key that is neither \<^verbatim>\<open>photourl\<close>
  nor \<^verbatim>\<open>status\<close>, whatever keys are missing before it; and whenever it raises, the
  exception comes from a field whose source key is present in the record, never from a
  missing one.
\<close>

theorem parse_data_missing_source_key:
  assumes "distinct (map fst toExtract)"
  shows "(parse_data (JObj kvs) toExtract = Inr response \<longrightarrow>
            map (\<lambda>(field, v). (field, Inr v :: error + json)) response
              = map (\<lambda>(field, val). (field, field_value (JObj kvs) field val)) toExtract
            \<and> map fst response = map fst toExtract
            \<and> (\<forall>(field, val) \<in> set toExtract.
                 map_of kvs val = None \<longrightarrow> map_of response field = Some (JStr []))
            \<and> (\<forall>(field, val) \<in> set toExtract.
                 map_of kvs val \<noteq> None \<and> field \<noteq> ''photourl'' \<and> field \<noteq> ''status''
                 \<longrightarrow> map_of response field = map_of kvs val))
       \<and> (parse_data (JObj kvs) toExtract = Inl err \<longrightarrow>
            (\<exists>(field, val) \<in> set toExtract.
               map_of kvs val \<noteq> None \<and> field_value (JObj kvs) field val = Inl err))"
proof (intro conjI impI)
  assume "parse_data (JObj kvs) toExtract = Inr response"
  then have loop: "parse_data_loop (JObj kvs) toExtract [] = Inr response"
    by (simp add: parse_data_def)
  from parse_data_loop_items [OF loop] assms
  show items: "map (\<lambda>(field, v). (field, Inr v :: error + json)) response
          = map (\<lambda>(field, val). (field, field_value (JObj kvs) field val)) toExtract"
    by simp
  have "map fst (map (\<lambda>(field, v). (field, Inr v :: error + json)) response)
        = map fst (map (\<lambda>(field, val). (field, field_value (JObj kvs) field val)) toExtract)"
    by (simp only: items)
  then show "map fst response = map fst toExtract"
    by (simp add: case_prod_unfold comp_def)
  show "\<forall>(field, val) \<in> set toExtract.
          map_of kvs val = None \<longrightarrow> map_of response field = Some (JStr [])"
  proof (clarify)
    fix field val
    assume mem: "(field, val) \<in> set toExtract" and absent: "map_of kvs val = None"
    from parse_data_loop_value [OF loop assms mem] field_value_absent [OF absent, of field]
    show "map_of response field = Some (JStr [])" by auto
  qed
  show "\<forall>(field, val) \<in> set toExtract.
          map_of kvs val \<noteq> None \<and> field \<noteq> ''photourl'' \<and> field \<noteq> ''status''
          \<longrightarrow> map_of response field = map_of kvs val"
    by (auto intro: parse_data_loop_passthrough [OF loop assms])
next
  assume "parse_data (JObj kvs) toExtract = Inl err"
  then have "parse_data_loop (JObj kvs) toExtract [] = Inl err" by (simp add: parse_data_def)
  from parse_data_loop_error [OF this]
  obtain field val where mem: "(field, val) \<in> set toExtract"
    and bad: "field_value (JObj kvs) field val = Inl err"
    by (auto simp: list_ex_iff)
  have "map_of kvs val \<noteq> None"
  proof
    assume "map_of kvs val = None"
    from field_value_absent [OF this, of field] bad show False by simp
  qed
  with mem bad
  show "\<exists>(field, val) \<in> set toExtract.
          map_of kvs val \<noteq> None \<and> field_value (JObj kvs) field val = Inl err"
    by blast
qed

text \<open>
  The record lacks \<^verbatim>\<open>listPrice\<close>, the source key of the first field of the mapping; the
  fields after it are mapped all the same.
\<close>

theorem parse_data_missing_source_key_witness:
  "distinct (map fst [(''price'', ''listPrice''), (''mls'', ''mlsId''), (''status'', ''mlsStatus'')])
   \<and> map_of [(''mlsId'', JStr ''3483489''), (''mlsStatus'', JStr ''sold'')] ''listPrice'' = None
   \<and> parse_data (JObj [(''mlsId'', JStr ''3483489''), (''mlsStatus'', JStr ''sold'')])
        [(''price'', ''listPrice''), (''mls'', ''mlsId''), (''status'', ''mlsStatus'')]
      = Inr [(''price'', JStr []), (''mls'', JStr ''3483489''), (''status'', JStr ''Sold'')]
   \<and> map fst [(''price'', JStr []), (''mls'', JStr ''3483489''), (''status'', JStr ''Sold'')]
      = map fst [(''price'', ''listPrice''), (''mls'', ''mlsId''), (''status'', ''mlsStatus'')]"
proof -
  have d: "distinct (map fst [(''price'', ''listPrice''), (''mls'', ''mlsId''), (''status'', ''mlsStatus'')])"
    by simp
  have m: "map_of [(''mlsId'', JStr ''3483489''), (''mlsStatus'', JStr ''sold'')] ''listPrice'' = None"
    by simp
  have p: "parse_data (JObj [(''mlsId'', JStr ''3483489''), (''mlsStatus'', JStr ''sold'')])
             [(''price'', ''listPrice''), (''mls'', ''mlsId''), (''status'', ''mlsStatus'')]
           = Inr [(''price'', JStr []), (''mls'', JStr ''3483489''), (''status'', JStr ''Sold'')]"
    by code_simp
  note t = parse_data_missing_source_key [OF d,
         of "[(''mlsId'', JStr ''3483489''), (''mlsStatus'', JStr ''sold'')]"
            "[(''price'', JStr []), (''mls'', JStr ''3483489''), (''status'', JStr ''Sold'')]" TypeError]
  from t [THEN conjunct1, THEN mp, OF p]
  have f: "map fst [(''price'', JStr []), (''mls'', JStr ''3483489''), (''status'', JStr ''Sold'')]
           = map fst [(''price'', ''listPrice''), (''mls'', ''mlsId''), (''status'', ''mlsStatus'')]"
    by (rule conjunct2 [THEN conjunct1])
  from d m p f show ?thesis by (intro conjI)
qed

text \<open>
  C8 as the code has it (the status transform): for a record that holds the raw value
  under the source key, a raw string of the vocabulary maps to its label, and every
  other raw string, number, boolean or null maps to \<^verbatim>\<open>Available\<close>; a raw value that is
  a list or an object is unhashable, and the lookup raises TypeError.
\<close>

theorem status_transform_hashable:
  assumes "map_of kvs key = Some raw"
  shows "parse_data (JObj kvs) [(''status'', key)] =
           (case raw of
              JArr xs \<Rightarrow> Inl TypeError
            | JObj items \<Rightarrow> Inl TypeError
            | JStr s \<Rightarrow>
                Inr [(''status'',
                      JStr (if s = ''comingSoon'' then ''Coming Soon''
                            else if s = ''active'' \<or> s = ''openHouse'' \<or> s = ''justListed''
                            then ''Available''
                            else if s = ''priceReduced'' then ''Price reduced''
                            else if s = ''sold'' then ''Sold''
                            else ''Available''))]
            | _ \<Rightarrow> Inr [(''status'', JStr ''Available'')])"
  using assms
  by (cases raw) (simp_all add: parse_data_def field_value_def statuses_def)

theorem status_transform_hashable_witness:
  "map_of [(''mlsStatus'', JStr ''sold'')] ''mlsStatus'' = Some (JStr ''sold'')
   \<and> parse_data (JObj [(''mlsStatus'', JStr ''sold'')]) [(''status'', ''mlsStatus'')]
       = Inr [(''status'', JStr ''Sold'')]
   \<and> parse_data (JObj [(''mlsStatus'', JStr ''unknownValue'')]) [(''status'', ''mlsStatus'')]
       = Inr [(''status'', JStr ''Available'')]
   \<and> parse_data (JObj [(''mlsStatus'', JNum 7)]) [(''status'', ''mlsStatus'')]
       = Inr [(''status'', JStr ''Available'')]"
proof -
  have a: "map_of [(''mlsStatus'', JStr ''sold'')] ''mlsStatus'' = Some (JStr ''sold'')" by simp
  have b: "map_of [(''mlsStatus'', JStr ''unknownValue'')] ''mlsStatus'' = Some (JStr ''unknownValue'')"
    by simp
  have c: "map_of [(''mlsStatus'', JNum 7)] ''mlsStatus'' = Some (JNum 7)" by simp
  show ?thesis
    using status_transform_hashable [OF a] status_transform_hashable [OF b]
          status_transform_hashable [OF c]
    by simp
qed

text \<open>
  C8 as stated fails: the raw value \<^verbatim>\<open>[]\<close>, a list, is outside the vocabulary, and the
  transform raises TypeError on it instead of yielding \<^verbatim>\<open>Available\<close>.
\<close>

theorem status_transform_list_raises:
  "parse_data (JObj [(''mlsStatus'', JArr [])]) [(''status'', ''mlsStatus'')] = Inl TypeError"
  by code_simp

section \<open>Delivery\<close>

lemma post_data_cases:
  "post_data w url data =
     (case requests_post w url data of
        None \<Rightarrow> Inl RequestException
      | Some r \<Rightarrow> Inr (if status_code r = 200 then PyTrue else PyNone))"
  by (simp add: post_data_def split: option.splits)

text \<open>\<^verbatim>\<open>post_data\<close> returns \<^verbatim>\<open>True\<close> exactly when there is a response and its status is 200.\<close>

lemma post_data_true_iff:
  "post_data w url data = Inr PyTrue
   \<longleftrightarrow> (\<exists>r. requests_post w url data = Some r \<and> status_code r = 200)"
  by (auto simp: post_data_def split: option.splits)

text \<open>
  C10 (post returns a boolean; any other status or a transport failure is reported and
  is not fatal): the code departs from it. When \<^verbatim>\<open>requests.post\<close> raises, \<^verbatim>\<open>post_data\<close>
  raises too instead of returning a boolean; on status 500 it returns \<^verbatim>\<open>None\<close>, not
  \<^verbatim>\<open>False\<close>.
\<close>

theorem post_data_transport_failure_raises:
  "post_data world_post_raises ''https://forms.example.com/listing'' [(''status'', JStr ''Sold'')]
     = Inl RequestException
   \<and> post_data world_post_500 ''https://forms.example.com/listing'' [(''status'', JStr ''Sold'')]
     = Inr PyNone"
  by code_simp

section \<open>Orchestrator\<close>

text \<open>The loop of \<^verbatim>\<open>process_url\<close> tries the cutoffs from the current one up to the maximum, in order.\<close>

lemma cutoff_loop_upto:
  "cutoff_loop w c url max_cutoff current_cutoff n
   = try_cutoffs w c url [current_cutoff..max_cutoff] n"
proof (induction w c url max_cutoff current_cutoff n rule: cutoff_loop.induct)
  case (1 w c url max_cutoff current_cutoff n)
  show ?case
  proof (cases "current_cutoff \<le> max_cutoff")
    case False
    then show ?thesis
      by (subst cutoff_loop.simps) simp
  next
    case le: True
    then have up: "[current_cutoff..max_cutoff] = current_cutoff # [current_cutoff + 1..max_cutoff]"
      by (simp add: upto_rec1)
    show ?thesis
    proof (cases "create_target_url url current_cutoff")
      case None
      with le show ?thesis
        by (subst cutoff_loop.simps) (simp add: up)
    next
      case (Some new_url)
      show ?thesis
      proof (cases "get_json_data w n (api_url c) new_url (vendor_token c)")
        case None
        from "1.IH" [OF le Some None] le Some None show ?thesis
          by (subst cutoff_loop.simps) (simp add: up)
      next
        case (Some extracted)
        with le \<open>create_target_url url current_cutoff = Some new_url\<close> show ?thesis
          by (subst cutoff_loop.simps) (simp add: up)
      qed
    qed
  qed
qed

text \<open>With the default maximum the cutoffs are 3, 4, 5 and 6.\<close>

lemma cutoffs_default: "[3..6] = [3, 4, 5, 6 :: int]"
  by (simp add: upto_rec1)

lemma cutoff_loop_default:
  "cutoff_loop w c url 6 3 0 = try_cutoffs w c url [3, 4, 5, 6] 0"
  by (simp add: cutoff_loop_upto cutoffs_default)

text \<open>
  What \<^verbatim>\<open>process_url\<close> does after the loop: an aborted or exhausted search records the
  URL as unprocessed; after an extraction, the mapped record is posted, a response of
  status 200 records the URL as processed and any other response as unsaved; an
  exception of the mapping or of the webform call leaves the function with no record.
\<close>

lemma process_url_early_return:
  "cutoff_loop w c url max_cutoff 3 0 = EarlyReturn
   \<Longrightarrow> process_url w c url max_cutoff fs
       = (Inr False, save_urls_to_file (csv_writerow w) (append_fails w) fs (unprocessed_urls c) [url])"
  by (simp add: process_url_def)

lemma process_url_exhausted:
  "cutoff_loop w c url max_cutoff 3 0 = LoopEnd None
   \<Longrightarrow> process_url w c url max_cutoff fs
       = (Inr False, save_urls_to_file (csv_writerow w) (append_fails w) fs (unprocessed_urls c) [url])"
  by (simp add: process_url_def)

lemma process_url_posted:
  "cutoff_loop w c url max_cutoff 3 0 = LoopEnd (Some extracted)
   \<Longrightarrow> parse_data extracted (api_extraction c) = Inr needed
   \<Longrightarrow> requests_post w (webform_url c) needed = Some r
   \<Longrightarrow> process_url w c url max_cutoff fs
       = (if status_code r = 200
          then (Inr True, save_urls_to_file (csv_writerow w) (append_fails w) fs (processed_urls c) [url])
          else (Inr False, save_urls_to_file (csv_writerow w) (append_fails w) fs (unsaved_urls c) [url]))"
  by (simp add: process_url_def post_data_def)

lemma process_url_post_raises:
  "cutoff_loop w c url max_cutoff 3 0 = LoopEnd (Some extracted)
   \<Longrightarrow> parse_data extracted (api_extraction c) = Inr needed
   \<Longrightarrow> requests_post w (webform_url c) needed = None
   \<Longrightarrow> process_url w c url max_cutoff fs = (Inl RequestException, fs)"
  by (simp add: process_url_def post_data_def)

lemma process_url_mapping_raises:
  "cutoff_loop w c url max_cutoff 3 0 = LoopEnd (Some extracted)
   \<Longrightarrow> parse_data extracted (api_extraction c) = Inl err
   \<Longrightarrow> process_url w c url max_cutoff fs = (Inl err, fs)"
  by (simp add: process_url_def)


text \<open>
  The scenario of the specification: extraction fails at cutoff 3 and succeeds at
  cutoff 4, the webform answers 200. The URL is recorded as processed, and in no other
  log.
\<close>

lemma process_url_found_at_cutoff_4:
  "create_target_url example_url 4
     = Some ''https://www.sellwithduran.com/property/H6255197/253-Merrick/''
   \<and> get_json_data world_found_second 0 (api_url example_config)
        ''https://www.sellwithduran.com/property/H6255197/253-Merrick-Avenue/''
        (vendor_token example_config) = None
   \<and> fst (process_url world_found_second example_config example_url 6 no_files) = Inr True
   \<and> snd (process_url world_found_second example_config example_url 6 no_files) ''processed.csv''
       = Some (example_url @ crlf)
   \<and> snd (process_url world_found_second example_config example_url 6 no_files) ''unprocessed.csv''
       = None
   \<and> snd (process_url world_found_second example_config example_url 6 no_files) ''unsaved.csv''
       = None"
  by code_simp

text \<open>
  C3 (the state machine of processUrl, recording Unsaved on delivery failure): the code
  departs from it when the delivery fails in transport. The listing is extracted at
  cutoff 3 and mapped, the webform call raises, and \<^verbatim>\<open>process_url\<close> ends by that
  exception: the URL is recorded in no log, the unsaved one included.
\<close>

theorem process_url_post_exception_records_nothing:
  "fst (process_url world_post_raises example_config example_url 6 no_files) = Inl RequestException
   \<and> snd (process_url world_post_raises example_config example_url 6 no_files) ''unsaved.csv'' = None
   \<and> snd (process_url world_post_raises example_config example_url 6 no_files) ''unprocessed.csv'' = None
   \<and> snd (process_url world_post_raises example_config example_url 6 no_files) ''processed.csv'' = None"
  by code_simp




end
